theory Spec2Isabelle
  imports Main "HOL-Library.AList"
begin

section \<open>JavaScript values and containers used by custom-tokenizer.js\<close>

text \<open>
  A JavaScript string is modelled as a \<^typ>\<open>string\<close> whose characters are read as the
  code points U+0000 to U+00FF. On these strings a code point is one UTF-16 code unit, so
  \<^verbatim>\<open>for (const char of text)\<close>, \<^verbatim>\<open>[...text]\<close> and \<^verbatim>\<open>word[i]\<close> all see
  the same characters. Numbers are unbounded integers.
\<close>

text \<open>
  The values a property read on \<^verbatim>\<open>this.vocab\<close> can produce: a number the tokenizer
  stored, \<^verbatim>\<open>undefined\<close>, or a member that the plain object \<^verbatim>\<open>{}\<close> inherits from
  \<^verbatim>\<open>Object.prototype\<close>.
\<close>

datatype jsval = Num int | Undefined | ObjectPrototype | Builtin string

text \<open>
  A plain object \<^verbatim>\<open>{}\<close>: its own properties in creation order. Writing an existing key
  keeps its position.
\<close>

type_synonym 'v jsobject = "(string \<times> 'v) list"

definition object_prototype_functions :: "string list" where
  "object_prototype_functions =
     [''constructor'', ''__defineGetter__'', ''__defineSetter__'', ''hasOwnProperty'',
      ''__lookupGetter__'', ''__lookupSetter__'', ''isPrototypeOf'',
      ''propertyIsEnumerable'', ''toString'', ''valueOf'', ''toLocaleString'']"

text \<open>What a read of key \<open>k\<close> finds on \<^verbatim>\<open>Object.prototype\<close> when \<open>k\<close> is no own property.\<close>

definition inherited :: "string \<Rightarrow> jsval" where
  "inherited k =
     (if k = ''__proto__'' then ObjectPrototype
      else if k \<in> set object_prototype_functions then Builtin k
      else Undefined)"

text \<open>\<^verbatim>\<open>obj[k]\<close> on an object whose own values are numbers.\<close>

definition obj_get :: "nat jsobject \<Rightarrow> string \<Rightarrow> jsval" where
  "obj_get obj k = (case map_of obj k of Some n \<Rightarrow> Num (int n) | None \<Rightarrow> inherited k)"

text \<open>
  \<^verbatim>\<open>obj[k] = v\<close> for a number or string \<open>v\<close>. The key \<^verbatim>\<open>__proto__\<close> reaches the
  setter of \<^verbatim>\<open>Object.prototype\<close>, which ignores a value that is not an object: no own
  property is created.
\<close>

definition obj_set :: "string \<Rightarrow> 'v \<Rightarrow> 'v jsobject \<Rightarrow> 'v jsobject" where
  "obj_set k v obj = (if k = ''__proto__'' then obj else AList.update k v obj)"

text \<open>The code point of a character.\<close>

definition code :: "char \<Rightarrow> nat" where
  "code c = of_char c"

definition is_digit :: "char \<Rightarrow> bool" where
  "is_digit c = (48 \<le> code c \<and> code c \<le> 57)"

definition decimal_value :: "string \<Rightarrow> int" where
  "decimal_value s = foldl (\<lambda>n c. 10 * n + (int (code c) - 48)) 0 s"

text \<open>
  An array index is a canonical decimal string below \<open>2^32 - 1\<close>. Own keys that are array
  indices are enumerated first, in ascending numeric order, then the other keys in
  creation order.
\<close>

definition array_index :: "string \<Rightarrow> int option" where
  "array_index s =
     (if s \<noteq> [] \<and> list_all is_digit s \<and> (s = ''0'' \<or> hd s \<noteq> CHR ''0'')
         \<and> decimal_value s \<le> 4294967294
      then Some (decimal_value s) else None)"

definition index_rank :: "string \<times> 'v \<Rightarrow> int" where
  "index_rank e = (case array_index (fst e) of Some n \<Rightarrow> n | None \<Rightarrow> 0)"

definition obj_entries :: "'v jsobject \<Rightarrow> (string \<times> 'v) list" where
  "obj_entries obj =
     sort_key index_rank (filter (\<lambda>e. array_index (fst e) \<noteq> None) obj)
     @ filter (\<lambda>e. array_index (fst e) = None) obj"

definition obj_keys :: "'v jsobject \<Rightarrow> string list" where
  "obj_keys obj = map fst (obj_entries obj)"

text \<open>
  \<^verbatim>\<open>Object.fromEntries(entries.map(([k, v]) => [v, k]))\<close>: the keys of the result are
  the decimal strings of the ids, kept here as the ids themselves. A later entry with the
  same key overwrites an earlier one.
\<close>

definition from_entries :: "(nat \<times> string) list \<Rightarrow> (nat \<times> string) list" where
  "from_entries es = foldl (\<lambda>obj e. AList.update (fst e) (snd e) obj) [] es"

definition swap_entry :: "string \<times> nat \<Rightarrow> nat \<times> string" where
  "swap_entry e = (snd e, fst e)"

definition truthy :: "jsval \<Rightarrow> bool" where
  "truthy v = (case v of Num n \<Rightarrow> n \<noteq> 0 | Undefined \<Rightarrow> False | _ \<Rightarrow> True)"

text \<open>\<^verbatim>\<open>a || b\<close>.\<close>

definition js_or :: "jsval \<Rightarrow> jsval \<Rightarrow> jsval" where
  "js_or a b = (if truthy a then a else b)"

text \<open>\<^verbatim>\<open>Set.prototype.add\<close>: a set keeps first-insertion order.\<close>

definition set_add :: "'a list \<Rightarrow> 'a \<Rightarrow> 'a list" where
  "set_add s x = (if x \<in> set s then s else s @ [x])"

text \<open>The code points of a string, each as a one-character string.\<close>

definition code_points :: "string \<Rightarrow> string list" where
  "code_points text = map (\<lambda>c. [c]) text"

text \<open>
  \<^verbatim>\<open>this.reverseVocab[token] || '<UNK>'\<close> (the BPE tokenizer uses \<^verbatim>\<open>'?'\<close>): a token
  that is not a non-negative integer has a key that no own property and no member of
  \<^verbatim>\<open>Object.prototype\<close> carries; the empty string is falsy.
\<close>

definition reverse_get :: "(nat \<times> string) list \<Rightarrow> string \<Rightarrow> jsval \<Rightarrow> string" where
  "reverse_get rv dflt token =
     (case token of
        Num i \<Rightarrow>
          (if i < 0 then dflt
           else (case map_of rv (nat i) of
                   Some s \<Rightarrow> (if s = [] then dflt else s)
                 | None \<Rightarrow> dflt))
      | _ \<Rightarrow> dflt)"

section \<open>CharacterTokenizer\<close>

record tokenizer =
  vocab :: "nat jsobject"
  reverseVocab :: "(nat \<times> string) list"

record CharacterTokenizer = tokenizer +
  vocabSize :: nat


text \<open>The four assignments of the special tokens.\<close>

definition add_special_tokens :: "nat jsobject \<Rightarrow> nat jsobject" where
  "add_special_tokens v =
     obj_set ''<END>'' 3 (obj_set ''<START>'' 2 (obj_set ''<UNK>'' 1 (obj_set ''<PAD>'' 0 v)))"

text \<open>
  \<^verbatim>\<open>let index = 4; tokens.forEach(t => { this.vocab[t] = index; index++; })\<close>, with the
  start index as a parameter.
\<close>

fun assign_ids :: "string list \<Rightarrow> nat \<Rightarrow> nat jsobject \<Rightarrow> nat jsobject" where
  "assign_ids [] index v = v"
| "assign_ids (t # ts) index v = assign_ids ts (index + 1) (obj_set t index v)"

definition build_reverse :: "nat jsobject \<Rightarrow> (nat \<times> string) list" where
  "build_reverse v = from_entries (map swap_entry (obj_entries v))"

text \<open>
  The \<^verbatim>\<open>Set\<close> of the characters of a list of strings, filled string by string
  (the texts of a corpus, or the words of the BPE working list).
\<close>

definition collect_chars :: "string list \<Rightarrow> string list" where
  "collect_chars texts = foldl (\<lambda>s text. foldl set_add s (code_points text)) [] texts"




section \<open>WordTokenizer\<close>

text \<open>The regular-expression classes \<^verbatim>\<open>\w\<close> and \<^verbatim>\<open>\s\<close> on U+0000 to U+00FF.\<close>

definition is_word_char :: "char \<Rightarrow> bool" where
  "is_word_char c =
     ((48 \<le> code c \<and> code c \<le> 57) \<or> (65 \<le> code c \<and> code c \<le> 90)
      \<or> (97 \<le> code c \<and> code c \<le> 122) \<or> code c = 95)"

definition is_space_char :: "char \<Rightarrow> bool" where
  "is_space_char c = (code c \<in> {9, 10, 11, 12, 13, 32, 160})"

text \<open>
  \<^verbatim>\<open>String.prototype.toLowerCase\<close> on U+0000 to U+00FF: the letters A to Z and the
  letters U+00C0 to U+00DE other than the multiplication sign U+00D7 move up by 32.
\<close>

definition to_lower :: "char \<Rightarrow> char" where
  "to_lower c =
     (if (65 \<le> code c \<and> code c \<le> 90) \<or> (192 \<le> code c \<and> code c \<le> 222 \<and> code c \<noteq> 215)
      then char_of (code c + 32) else c)"

definition toLowerCase :: "string \<Rightarrow> string" where
  "toLowerCase text = map to_lower text"

text \<open>
  \<^verbatim>\<open>text.match(/\w+|[^\w\s]/g) || []\<close>: the maximal runs of word characters and the
  single characters that are neither word characters nor white space, in order.
\<close>

function word_units :: "string \<Rightarrow> string list" where
  "word_units [] = []"
| "word_units (c # cs) =
     (if is_word_char c
      then (c # takeWhile is_word_char cs) # word_units (dropWhile is_word_char cs)
      else if is_space_char c then word_units cs
      else [c] # word_units cs)"
  by pat_completeness auto
termination
  by (relation "measure length") (auto simp: length_dropWhile_le less_Suc_eq_le)

text \<open>
  A value of \<^verbatim>\<open>wordFrequency\<close>: a count, or the string that \<^verbatim>\<open>+ 1\<close> produces once
  the read found an inherited member instead of a count.
\<close>

datatype freq = Count nat | Text string

text \<open>The string that \<^verbatim>\<open>+\<close> converts an inherited member to.\<close>

definition to_display :: "jsval \<Rightarrow> string" where
  "to_display v =
     (case v of
        ObjectPrototype \<Rightarrow> ''[object Object]''
      | Builtin k \<Rightarrow>
          ''function '' @ (if k = ''constructor'' then ''Object'' else k) @ ''() { [native code] }''
      | Undefined \<Rightarrow> ''undefined''
      | Num i \<Rightarrow> [])"

text \<open>\<^verbatim>\<open>wordFrequency[word] = (wordFrequency[word] || 0) + 1\<close>.\<close>

definition count_word :: "freq jsobject \<Rightarrow> string \<Rightarrow> freq jsobject" where
  "count_word wordFrequency word =
     obj_set word
       (case map_of wordFrequency word of
          Some (Count n) \<Rightarrow> Count (n + 1)
        | Some (Text s) \<Rightarrow> (if s = [] then Count 1 else Text (s @ ''1''))
        | None \<Rightarrow>
            (if truthy (inherited word) then Text (to_display (inherited word) @ ''1'')
             else Count 1))
       wordFrequency"

definition count_words :: "string list \<Rightarrow> freq jsobject" where
  "count_words texts =
     foldl (\<lambda>wf text. foldl count_word wf (word_units (toLowerCase text))) [] texts"

text \<open>
  \<^verbatim>\<open>Array.prototype.sort\<close> is stable. A comparator result above 0 puts \<open>a\<close> after
  \<open>b\<close>; a result that is not a number counts as 0.
\<close>

fun insert_by :: "('a \<Rightarrow> 'a \<Rightarrow> int) \<Rightarrow> 'a \<Rightarrow> 'a list \<Rightarrow> 'a list" where
  "insert_by cmp x [] = [x]"
| "insert_by cmp x (y # ys) = (if cmp x y > 0 then y # insert_by cmp x ys else x # y # ys)"

definition js_sort :: "('a \<Rightarrow> 'a \<Rightarrow> int) \<Rightarrow> 'a list \<Rightarrow> 'a list" where
  "js_sort cmp xs = foldr (insert_by cmp) xs []"

text \<open>
  \<^verbatim>\<open>(a, b) => b[1] - a[1]\<close> on the entries of \<^verbatim>\<open>wordFrequency\<close>. Every string
  that \<open>count_word\<close> stores ends a function or object description with the digit 1 and
  converts to NaN. With such an entry present the comparator is not consistent and the
  language leaves the order to the implementation; the model keeps the stable insertion.
\<close>

definition by_frequency :: "string \<times> freq \<Rightarrow> string \<times> freq \<Rightarrow> int" where
  "by_frequency a b =
     (case (snd b, snd a) of (Count y, Count x) \<Rightarrow> int y - int x | _ \<Rightarrow> 0)"

text \<open>\<^verbatim>\<open>xs.slice(0, e)\<close>: a negative end counts from the end of the array.\<close>

definition js_slice0 :: "int \<Rightarrow> 'a list \<Rightarrow> 'a list" where
  "js_slice0 e xs = (if e < 0 then take (nat (int (length xs) + e)) xs else take (nat e) xs)"

record WordTokenizer = CharacterTokenizer +
  maxVocabSize :: int

definition new_WordTokenizer :: "int \<Rightarrow> WordTokenizer" where
  "new_WordTokenizer m = \<lparr>vocab = [], reverseVocab = [], vocabSize = 0, maxVocabSize = m\<rparr>"

definition WordTokenizer_buildVocabulary ::
  "string list \<Rightarrow> WordTokenizer \<Rightarrow> WordTokenizer" where
  "WordTokenizer_buildVocabulary texts this =
     (let wordFrequency = count_words texts;
          sortedWords = js_slice0 (maxVocabSize this - 4)
                          (js_sort by_frequency (obj_entries wordFrequency));
          v = assign_ids (map fst sortedWords) 4 (add_special_tokens (vocab this))
      in this\<lparr>vocab := v, reverseVocab := build_reverse v,
              vocabSize := length (obj_keys v)\<rparr>)"

definition WordTokenizer_encode :: "WordTokenizer \<Rightarrow> string \<Rightarrow> jsval list" where
  "WordTokenizer_encode this text =
     map (\<lambda>word. js_or (obj_get (vocab this) word) (obj_get (vocab this) ''<UNK>''))
         (word_units (toLowerCase text))"

text \<open>\<^verbatim>\<open>parts.join(' ')\<close>.\<close>

fun join_space :: "string list \<Rightarrow> string" where
  "join_space [] = []"
| "join_space [p] = p"
| "join_space (p # ps) = p @ '' '' @ join_space ps"

definition WordTokenizer_decode :: "WordTokenizer \<Rightarrow> jsval list \<Rightarrow> string" where
  "WordTokenizer_decode this tokens =
     join_space (map (reverse_get (reverseVocab this) ''<UNK>'') tokens)"

section \<open>Regular expressions built from two characters\<close>

text \<open>
  \<^verbatim>\<open>new RegExp(first + second, 'g')\<close> receives the two characters of a pair as its
  pattern source, unescaped. The model covers every pattern of exactly two characters, as
  the pattern grammar for web browsers reads it without the \<^verbatim>\<open>u\<close> flag; a pattern of
  another length is outside the model.
\<close>

datatype js_error = SyntaxError | TypeError | PatternOutsideModel

datatype cset =
  CChar char | CAny | CDigit | CNonDigit | CWord | CNonWord | CSpace | CNonSpace | CEmpty

fun in_cset :: "cset \<Rightarrow> char \<Rightarrow> bool" where
  "in_cset (CChar x) c = (c = x)"
| "in_cset CAny c = (code c \<noteq> 10 \<and> code c \<noteq> 13)"
| "in_cset CDigit c = is_digit c"
| "in_cset CNonDigit c = (\<not> is_digit c)"
| "in_cset CWord c = is_word_char c"
| "in_cset CNonWord c = (\<not> is_word_char c)"
| "in_cset CSpace c = is_space_char c"
| "in_cset CNonSpace c = (\<not> is_space_char c)"
| "in_cset CEmpty c = False"

datatype rterm =
  AssertStart | AssertEnd | AssertBoundary | AssertNonBoundary
  | One cset | Star cset | Plus cset | Opt cset | EmptyGroup

text \<open>A pattern is a list of alternatives, each a sequence of terms.\<close>

type_synonym regex = "rterm list list"

definition backslash :: char where
  "backslash = CHR 0x5C"

definition apostrophe :: char where
  "apostrophe = CHR 0x27"

text \<open>The term that \<^verbatim>\<open>\\<close> followed by \<open>c\<close> denotes.\<close>

definition parse_escape :: "char \<Rightarrow> rterm list" where
  "parse_escape c =
     (if c = CHR ''d'' then [One CDigit]
      else if c = CHR ''D'' then [One CNonDigit]
      else if c = CHR ''w'' then [One CWord]
      else if c = CHR ''W'' then [One CNonWord]
      else if c = CHR ''s'' then [One CSpace]
      else if c = CHR ''S'' then [One CNonSpace]
      else if c = CHR ''b'' then [AssertBoundary]
      else if c = CHR ''B'' then [AssertNonBoundary]
      else if c = CHR ''t'' then [One (CChar (char_of (9::nat)))]
      else if c = CHR ''n'' then [One (CChar (char_of (10::nat)))]
      else if c = CHR ''v'' then [One (CChar (char_of (11::nat)))]
      else if c = CHR ''f'' then [One (CChar (char_of (12::nat)))]
      else if c = CHR ''r'' then [One (CChar (char_of (13::nat)))]
      else if c = CHR ''c'' then [One (CChar backslash), One (CChar CHR ''c'')]
      else if 48 \<le> code c \<and> code c \<le> 55 then [One (CChar (char_of (code c - 48)))]
      else [One (CChar c)])"

text \<open>The second character of a pattern as a term of its own; \<^verbatim>\<open>|\<close> is handled apart.\<close>

definition parse_last :: "char \<Rightarrow> js_error + rterm" where
  "parse_last c =
     (if c = backslash \<or> c = CHR ''*'' \<or> c = CHR ''+'' \<or> c = CHR ''?''
         \<or> c = CHR ''('' \<or> c = CHR '')'' \<or> c = CHR ''[''
      then Inl SyntaxError
      else if c = CHR ''^'' then Inr AssertStart
      else if c = CHR ''$'' then Inr AssertEnd
      else if c = CHR ''.'' then Inr (One CAny)
      else Inr (One (CChar c)))"

definition compile_pair :: "char \<Rightarrow> char \<Rightarrow> js_error + regex" where
  "compile_pair c1 c2 =
     (if c1 = backslash then Inr [parse_escape c2]
      else if c1 = CHR ''*'' \<or> c1 = CHR ''+'' \<or> c1 = CHR ''?'' \<or> c1 = CHR '')''
        then Inl SyntaxError
      else if c1 = CHR ''('' then (if c2 = CHR '')'' then Inr [[EmptyGroup]] else Inl SyntaxError)
      else if c1 = CHR ''['' then (if c2 = CHR '']'' then Inr [[One CEmpty]] else Inl SyntaxError)
      else if c1 = CHR ''|'' then
        (if c2 = CHR ''|'' then Inr [[], [], []]
         else (case parse_last c2 of Inl e \<Rightarrow> Inl e | Inr t \<Rightarrow> Inr [[], [t]]))
      else if c1 = CHR ''^'' \<or> c1 = CHR ''$'' then
        (let a = (if c1 = CHR ''^'' then AssertStart else AssertEnd)
         in if c2 = CHR ''|'' then Inr [[a], []]
            else (case parse_last c2 of Inl e \<Rightarrow> Inl e | Inr t \<Rightarrow> Inr [[a, t]]))
      else
        (let x = (if c1 = CHR ''.'' then CAny else CChar c1)
         in if c2 = CHR ''*'' then Inr [[Star x]]
            else if c2 = CHR ''+'' then Inr [[Plus x]]
            else if c2 = CHR ''?'' then Inr [[Opt x]]
            else if c2 = CHR ''|'' then Inr [[One x], []]
            else (case parse_last c2 of Inl e \<Rightarrow> Inl e | Inr t \<Rightarrow> Inr [[One x, t]])))"

definition compile :: "string \<Rightarrow> js_error + regex" where
  "compile source =
     (case source of [c1, c2] \<Rightarrow> compile_pair c1 c2 | _ \<Rightarrow> Inl PatternOutsideModel)"

text \<open>
  Matching a sequence of terms at a position, given the character before the position
  (if any) and the rest of the subject; the result is the rest after the match.
  Quantifiers are greedy and backtrack.
\<close>

definition at_boundary :: "char option \<Rightarrow> string \<Rightarrow> bool" where
  "at_boundary prev rest =
     ((case prev of None \<Rightarrow> False | Some c \<Rightarrow> is_word_char c)
      \<noteq> (case rest of [] \<Rightarrow> False | c # _ \<Rightarrow> is_word_char c))"

fun match_terms :: "rterm list \<Rightarrow> char option \<Rightarrow> string \<Rightarrow> string option" where
  "match_terms [] prev rest = Some rest"
| "match_terms (AssertStart # ts) prev rest =
     (if prev = None then match_terms ts prev rest else None)"
| "match_terms (AssertEnd # ts) prev rest =
     (if rest = [] then match_terms ts prev rest else None)"
| "match_terms (AssertBoundary # ts) prev rest =
     (if at_boundary prev rest then match_terms ts prev rest else None)"
| "match_terms (AssertNonBoundary # ts) prev rest =
     (if at_boundary prev rest then None else match_terms ts prev rest)"
| "match_terms (EmptyGroup # ts) prev rest = match_terms ts prev rest"
| "match_terms (One x # ts) prev [] = None"
| "match_terms (One x # ts) prev (c # cs) =
     (if in_cset x c then match_terms ts (Some c) cs else None)"
| "match_terms (Plus x # ts) prev [] = None"
| "match_terms (Plus x # ts) prev (c # cs) =
     (if in_cset x c then match_terms (Star x # ts) (Some c) cs else None)"
| "match_terms (Opt x # ts) prev [] = match_terms ts prev []"
| "match_terms (Opt x # ts) prev (c # cs) =
     (if in_cset x c
      then (case match_terms ts (Some c) cs of
              Some r \<Rightarrow> Some r
            | None \<Rightarrow> match_terms ts prev (c # cs))
      else match_terms ts prev (c # cs))"
| "match_terms (Star x # ts) prev [] = match_terms ts prev []"
| "match_terms (Star x # ts) prev (c # cs) =
     (if in_cset x c
      then (case match_terms (Star x # ts) (Some c) cs of
              Some r \<Rightarrow> Some r
            | None \<Rightarrow> match_terms ts prev (c # cs))
      else match_terms ts prev (c # cs))"

fun match_alternatives :: "regex \<Rightarrow> char option \<Rightarrow> string \<Rightarrow> string option" where
  "match_alternatives [] prev rest = None"
| "match_alternatives (ts # alts) prev rest =
     (case match_terms ts prev rest of
        Some r \<Rightarrow> Some r
      | None \<Rightarrow> match_alternatives alts prev rest)"

text \<open>Only the empty group \<^verbatim>\<open>()\<close> captures; what it captures is the empty string.\<close>

definition capture_count :: "regex \<Rightarrow> nat" where
  "capture_count re = (if re = [[EmptyGroup]] then 1 else 0)"

text \<open>
  The replacement text for one match (GetSubstitution): \<^verbatim>\<open>$$\<close>, \<^verbatim>\<open>$&\<close>,
  \<^verbatim>\<open>$`\<close>, \<^verbatim>\<open>$'\<close> and \<^verbatim>\<open>$n\<close>, \<^verbatim>\<open>$nn\<close> for a capture that exists are
  replaced; every other character stands for itself.
\<close>

fun get_substitution :: "nat \<Rightarrow> string \<Rightarrow> string \<Rightarrow> string \<Rightarrow> string \<Rightarrow> string" where
  "get_substitution m matched pre post [] = []"
| "get_substitution m matched pre post [c] = [c]"
| "get_substitution m matched pre post (c # d # t) =
     (if c \<noteq> CHR ''$'' then c # get_substitution m matched pre post (d # t)
      else if d = CHR ''$'' then CHR ''$'' # get_substitution m matched pre post t
      else if d = CHR ''&'' then matched @ get_substitution m matched pre post t
      else if d = CHR ''`'' then pre @ get_substitution m matched pre post t
      else if d = apostrophe then post @ get_substitution m matched pre post t
      else if is_digit d then
        (case t of
           d2 # t2 \<Rightarrow>
             (if is_digit d2 \<and> 10 * (code d - 48) + (code d2 - 48) \<le> m
              then (if 10 * (code d - 48) + (code d2 - 48) = 0
                    then c # d # d2 # get_substitution m matched pre post t2
                    else get_substitution m matched pre post t2)
              else if 1 \<le> code d - 48 \<and> code d - 48 \<le> m
                then get_substitution m matched pre post t
                else c # d # get_substitution m matched pre post t)
         | [] \<Rightarrow>
             (if 1 \<le> code d - 48 \<and> code d - 48 \<le> m then []
              else [c, d]))
      else c # get_substitution m matched pre post (d # t))"

definition last_char :: "string \<Rightarrow> char option" where
  "last_char pre = (if pre = [] then None else Some (last pre))"

text \<open>
  \<^verbatim>\<open>subject.replace(re, template)\<close> for a global expression: matches are looked for
  from left to right, the search resumes at the end of a match, and one position further
  after an empty match.
\<close>

function scan_replace :: "regex \<Rightarrow> string \<Rightarrow> string \<Rightarrow> string \<Rightarrow> string" where
  "scan_replace re template pre rest =
     (case match_alternatives re (last_char pre) rest of
        Some rest' \<Rightarrow>
          (if length rest' < length rest
           then get_substitution (capture_count re)
                  (take (length rest - length rest') rest) pre rest' template
                @ scan_replace re template
                    (pre @ take (length rest - length rest') rest) rest'
           else get_substitution (capture_count re) [] pre rest template
                @ (case rest of
                     [] \<Rightarrow> []
                   | c # cs \<Rightarrow> c # scan_replace re template (pre @ [c]) cs))
      | None \<Rightarrow>
          (case rest of
             [] \<Rightarrow> []
           | c # cs \<Rightarrow> c # scan_replace re template (pre @ [c]) cs))"
  by pat_completeness auto
termination
  by (relation "measure (\<lambda>(re, template, pre, rest). length rest)") auto

declare scan_replace.simps [simp del]

definition js_replace :: "regex \<Rightarrow> string \<Rightarrow> string \<Rightarrow> string" where
  "js_replace re template subject = scan_replace re template [] subject"

section \<open>SimpleBPETokenizer\<close>

text \<open>\<^verbatim>\<open>text.split(/\s+/)\<close>: white space at either end of the text leaves an empty piece.\<close>

function split_whitespace :: "string \<Rightarrow> string list" where
  "split_whitespace s =
     (case dropWhile (\<lambda>c. \<not> is_space_char c) s of
        [] \<Rightarrow> [s]
      | c # cs \<Rightarrow>
          takeWhile (\<lambda>c. \<not> is_space_char c) s # split_whitespace (dropWhile is_space_char cs))"
  by pat_completeness auto
termination
proof (relation "measure length", simp)
  fix s :: string and c cs
  assume a: "dropWhile (\<lambda>c. \<not> is_space_char c) s = c # cs"
  have "length (dropWhile is_space_char cs) \<le> length cs"
    by (rule length_dropWhile_le)
  moreover have "length (c # cs) \<le> length s"
    unfolding a [symmetric] by (rule length_dropWhile_le)
  ultimately show "(dropWhile is_space_char cs, s) \<in> measure length"
    by simp
qed

declare split_whitespace.simps [simp del]

text \<open>\<^verbatim>\<open>pair.split(' ')\<close>.\<close>

fun split_on :: "char \<Rightarrow> string \<Rightarrow> string list" where
  "split_on sep [] = [[]]"
| "split_on sep (c # cs) =
     (if c = sep then [] # split_on sep cs
      else (case split_on sep cs of p # ps \<Rightarrow> (c # p) # ps | [] \<Rightarrow> [[c]]))"

text \<open>
  \<^verbatim>\<open>const [first, second] = parts; first + second\<close>: a missing \<open>second\<close> is
  \<^verbatim>\<open>undefined\<close> and is concatenated as that word.
\<close>

definition first_plus_second :: "string list \<Rightarrow> string" where
  "first_plus_second parts =
     (case parts of
        first # second # _ \<Rightarrow> first @ second
      | [first] \<Rightarrow> first @ ''undefined''
      | [] \<Rightarrow> ''NaN'')"

text \<open>\<^verbatim>\<open>pairs.set(pair, (pairs.get(pair) || 0) + 1)\<close> on a \<^verbatim>\<open>Map\<close>.\<close>

definition count_pair :: "(string \<times> nat) list \<Rightarrow> string \<Rightarrow> (string \<times> nat) list" where
  "count_pair pairs pair =
     AList.update pair ((case map_of pairs pair of Some n \<Rightarrow> n | None \<Rightarrow> 0) + 1) pairs"

text \<open>The keys \<^verbatim>\<open>word[i] + ' ' + word[i + 1]\<close> of one word, for \<open>i\<close> from 0.\<close>

fun word_pairs :: "string \<Rightarrow> string list" where
  "word_pairs (a # b # rest) = [a, CHR '' '', b] # word_pairs (b # rest)"
| "word_pairs _ = []"

definition getPairFrequencies :: "string list \<Rightarrow> (string \<times> nat) list" where
  "getPairFrequencies words =
     foldl (\<lambda>pairs word. foldl count_pair pairs (word_pairs word)) [] words"

definition by_count :: "string \<times> nat \<Rightarrow> string \<times> nat \<Rightarrow> int" where
  "by_count a b = int (snd b) - int (snd a)"

text \<open>
  \<^verbatim>\<open>words.map(word => word.replace(new RegExp(first + second, 'g'), newToken))\<close>: the
  expression is built once per word, and building it can throw.
\<close>

fun apply_merge :: "string \<Rightarrow> string \<Rightarrow> string list \<Rightarrow> js_error + string list" where
  "apply_merge source newToken [] = Inr []"
| "apply_merge source newToken (word # words) =
     (case compile source of
        Inl e \<Rightarrow> Inl e
      | Inr re \<Rightarrow>
          (case apply_merge source newToken words of
             Inl e \<Rightarrow> Inl e
           | Inr words' \<Rightarrow> Inr (js_replace re newToken word # words')))"

record SimpleBPETokenizer = tokenizer +
  numMerges :: int
  merges :: "string jsobject"

definition new_SimpleBPETokenizer :: "int \<Rightarrow> SimpleBPETokenizer" where
  "new_SimpleBPETokenizer n = \<lparr>vocab = [], reverseVocab = [], numMerges = n, merges = []\<rparr>"

text \<open>
  The loop \<^verbatim>\<open>for (let i = 0; i < this.numMerges; i++)\<close> with its state: the working
  words, \<^verbatim>\<open>this.vocab\<close>, \<^verbatim>\<open>vocabIndex\<close> and \<^verbatim>\<open>this.merges\<close>.
\<close>

function learn_merges ::
  "int \<Rightarrow> int \<Rightarrow> string list \<Rightarrow> nat jsobject \<Rightarrow> nat \<Rightarrow> string jsobject
   \<Rightarrow> js_error + (nat jsobject \<times> string jsobject)" where
  "learn_merges i n words v vocabIndex m =
     (if i < n then
        (if getPairFrequencies words = [] then Inr (v, m)
         else
           (case js_sort by_count (getPairFrequencies words) of
              [] \<Rightarrow> Inl TypeError
            | e # _ \<Rightarrow>
                (case apply_merge (first_plus_second (split_on CHR '' '' (fst e)))
                        (first_plus_second (split_on CHR '' '' (fst e))) words of
                   Inl err \<Rightarrow> Inl err
                 | Inr words' \<Rightarrow>
                     learn_merges (i + 1) n words'
                       (obj_set (first_plus_second (split_on CHR '' '' (fst e))) vocabIndex v)
                       (vocabIndex + 1)
                       (obj_set (fst e) (first_plus_second (split_on CHR '' '' (fst e))) m))))
      else Inr (v, m))"
  by pat_completeness auto
termination
  by (relation "measure (\<lambda>(i, n, words, v, vocabIndex, m). nat (n - i))") auto

declare learn_merges.simps [simp del]

definition corpus_words :: "string list \<Rightarrow> string list" where
  "corpus_words texts =
     concat (map (\<lambda>text. filter (\<lambda>w. length w > 0) (split_whitespace text)) texts)"

definition SimpleBPETokenizer_buildVocabulary ::
  "string list \<Rightarrow> SimpleBPETokenizer \<Rightarrow> js_error + SimpleBPETokenizer" where
  "SimpleBPETokenizer_buildVocabulary texts this =
     (let words = corpus_words texts;
          chars = collect_chars words
      in case learn_merges 0 (numMerges this) words
                (assign_ids chars 0 (vocab this)) (length chars) (merges this) of
           Inl err \<Rightarrow> Inl err
         | Inr (v, m) \<Rightarrow> Inr (this\<lparr>vocab := v, reverseVocab := build_reverse v, merges := m\<rparr>))"

text \<open>The loop over \<^verbatim>\<open>Object.entries(this.merges)\<close> in \<^verbatim>\<open>encode\<close>.\<close>

fun apply_merges :: "(string \<times> string) list \<Rightarrow> string \<Rightarrow> js_error + string" where
  "apply_merges [] result = Inr result"
| "apply_merges (e # es) result =
     (case compile (first_plus_second (split_on CHR '' '' (fst e))) of
        Inl err \<Rightarrow> Inl err
      | Inr re \<Rightarrow> apply_merges es (js_replace re (snd e) result))"

definition SimpleBPETokenizer_encode ::
  "SimpleBPETokenizer \<Rightarrow> string \<Rightarrow> js_error + jsval list" where
  "SimpleBPETokenizer_encode this text =
     (case apply_merges (obj_entries (merges this)) text of
        Inl err \<Rightarrow> Inl err
      | Inr result \<Rightarrow>
          Inr (map (\<lambda>char. js_or (obj_get (vocab this) char) (Num 0)) (code_points result)))"

definition SimpleBPETokenizer_decode :: "SimpleBPETokenizer \<Rightarrow> jsval list \<Rightarrow> string" where
  "SimpleBPETokenizer_decode this tokens =
     concat (map (reverse_get (reverseVocab this) ''?'') tokens)"

section \<open>Notions used to state the properties\<close>












section \<open>Properties\<close>

subsection \<open>Case folding\<close>

lemma code_char_of: "n < 256 \<Longrightarrow> code (char_of n) = n"
  by (simp add: code_def)

lemma to_lower_idem: "to_lower (to_lower c) = to_lower c"
proof -
  have "code c < 256" by (simp add: code_def)
  then show ?thesis
    unfolding to_lower_def by (auto simp: code_char_of)
qed

lemma toLowerCase_idem: "toLowerCase (toLowerCase text) = toLowerCase text"
  by (simp add: toLowerCase_def to_lower_idem)

subsection \<open>Own properties of objects\<close>





lemma keys_obj_set_mono: "fst ` set obj \<subseteq> fst ` set (obj_set k v obj)"
  by (auto simp: obj_set_def dom_update)














subsection \<open>Sets of characters\<close>










subsection \<open>The vocabulary of a fresh CharacterTokenizer or WordTokenizer\<close>










subsection \<open>Word units and their frequencies\<close>













subsection \<open>Sorting and slicing\<close>




lemma length_insert_by: "length (insert_by cmp x ys) = Suc (length ys)"
  by (induction ys) auto

lemma length_js_sort: "length (js_sort cmp xs) = length xs"
  by (induction xs) (simp_all add: js_sort_def length_insert_by)







subsection \<open>Lookups in a standard vocabulary\<close>









subsection \<open>Encoding with a standard vocabulary\<close>












subsection \<open>Replacement keeps the characters\<close>












subsection \<open>Pairs of adjacent characters\<close>









subsection \<open>Applying a merge to the working words\<close>



subsection \<open>Ids under assignment\<close>









subsection \<open>The words of a corpus\<close>





subsection \<open>The vocabulary of a fresh SimpleBPETokenizer\<close>












subsection \<open>Encoding with a SimpleBPETokenizer\<close>


















subsection \<open>The scenario with one merge\<close>

text \<open>
  C1. With the corpus \<^verbatim>\<open>["ab ab ab", "ab cd"]\<close> and \<^verbatim>\<open>numMerges = 1\<close> the pair
  of \<open>a\<close> and \<open>b\<close> has frequency 4, the highest, and the one learned rule maps it to
  \<open>ab\<close>, which receives id 4. The replacement of \<open>ab\<close> by \<open>ab\<close> leaves the text as it
  is, and \<^verbatim>\<open>encode\<close> then maps the text character by character: on \<open>ab\<close> it returns
  the two ids 0 and 1 of \<open>a\<close> and \<open>b\<close>, not the single id 4.
\<close>

theorem C1_encode_ab_returns_two_ids:
  "getPairFrequencies (corpus_words [''ab ab ab'', ''ab cd'']) = [(''a b'', 4), (''c d'', 1)]
   \<and> SimpleBPETokenizer_buildVocabulary [''ab ab ab'', ''ab cd''] (new_SimpleBPETokenizer 1)
       = Inr \<lparr>vocab = [(''a'', 0), (''b'', 1), (''c'', 2), (''d'', 3), (''ab'', 4)],
              reverseVocab = [(0, ''a''), (1, ''b''), (2, ''c''), (3, ''d''), (4, ''ab'')],
              numMerges = 1, merges = [(''a b'', ''ab'')]\<rparr>
   \<and> SimpleBPETokenizer_encode
         \<lparr>vocab = [(''a'', 0), (''b'', 1), (''c'', 2), (''d'', 3), (''ab'', 4)],
          reverseVocab = [(0, ''a''), (1, ''b''), (2, ''c''), (3, ''d''), (4, ''ab'')],
          numMerges = 1, merges = [(''a b'', ''ab'')]\<rparr> ''ab''
       = Inr [Num 0, Num 1]"
  by code_simp

subsection \<open>Operations that throw\<close>

text \<open>
  C6. Building a SimpleBPETokenizer with \<^verbatim>\<open>numMerges = 1\<close> from the corpus
  \<^verbatim>\<open>["(("]\<close> throws: the most frequent pair is two opening parentheses, and
  \<^verbatim>\<open>new RegExp("((", 'g')\<close> is rejected with a SyntaxError.
\<close>

theorem C6_bpe_build_throws_on_parentheses:
  "SimpleBPETokenizer_buildVocabulary [''((''] (new_SimpleBPETokenizer 1) = Inl SyntaxError"
  by code_simp

subsection \<open>Inherited members in the output of encode\<close>

text \<open>
  C9. A WordTokenizer built from \<^verbatim>\<open>["hello world"]\<close> encodes the text
  \<^verbatim>\<open>"Hello constructor"\<close> as the id 4 followed by the function that every plain object
  inherits under the name \<^verbatim>\<open>constructor\<close>: the second element is neither the id 1 nor
  an id from 4 upwards.
\<close>

theorem C9_word_encode_inherited_member:
  "WordTokenizer_encode
     (WordTokenizer_buildVocabulary [''hello world''] (new_WordTokenizer 10000))
     ''Hello constructor''
   = [Num 4, Builtin ''constructor'']"
  by code_simp

subsection \<open>Letter case\<close>

text \<open>
  C10. For a WordTokenizer built from any corpus with any \<^verbatim>\<open>maxVocabSize\<close>, and for
  every text, \<^verbatim>\<open>encode(text)\<close> equals \<^verbatim>\<open>encode\<close> of the lower-cased text.
\<close>

theorem C10_word_encode_case_invariant:
  "WordTokenizer_encode (WordTokenizer_buildVocabulary texts (new_WordTokenizer m)) text
   = WordTokenizer_encode (WordTokenizer_buildVocabulary texts (new_WordTokenizer m))
       (toLowerCase text)"
  by (simp add: WordTokenizer_encode_def toLowerCase_idem)

subsection \<open>Round trip of the CharacterTokenizer\<close>



subsection \<open>Reserved tokens\<close>




subsection \<open>The vocabulary invariant\<close>




subsection \<open>Units that are not in the vocabulary\<close>




subsection \<open>Ids in the output of the BPE encoder\<close>



end
